theory Spec2Isabelle
  imports Main
begin

section \<open>Python values and action dictionaries\<close>

text \<open>
  Actions, oracle replies and website entries are loosely typed Python dictionaries with
  string keys. Their values are modelled by \<open>pyval\<close>: \<open>None\<close>, booleans, integers,
  strings, lists and nested dictionaries (floating-point numbers are left out). A
  dictionary is an association list; \<open>py_get\<close> is \<open>dict.get(key, default)\<close>.
  A string is a list of characters, one per code point below 256.
\<close>

datatype pyval =
    PNone
  | PBool bool
  | PInt int
  | PStr string
  | PList "pyval list"
  | PDict "(string \<times> pyval) list"

type_synonym action = "(string \<times> pyval) list"

definition py_get :: "action \<Rightarrow> string \<Rightarrow> pyval \<Rightarrow> pyval" where
  "py_get d k dflt = (case map_of d k of Some v \<Rightarrow> v | None \<Rightarrow> dflt)"

definition has_key :: "action \<Rightarrow> string \<Rightarrow> bool" where
  "has_key d k = (map_of d k \<noteq> None)"

text \<open>Truthiness, as \<open>if x:\<close> and \<open>not x\<close> test it.\<close>

fun truthy :: "pyval \<Rightarrow> bool" where
  "truthy PNone = False"
| "truthy (PBool b) = b"
| "truthy (PInt i) = (i \<noteq> 0)"
| "truthy (PStr s) = (s \<noteq> [])"
| "truthy (PList xs) = (xs \<noteq> [])"
| "truthy (PDict d) = (d \<noteq> [])"

section \<open>Strings: the operations of \<open>str\<close> and \<open>re\<close> the code uses\<close>

definition is_space :: "char \<Rightarrow> bool" where
  "is_space c = (let n = (of_char c :: nat) in
     (9 \<le> n \<and> n \<le> 13) \<or> (28 \<le> n \<and> n \<le> 32) \<or> n = 133 \<or> n = 160)"

text \<open>\<open>\w\<close> of a Unicode pattern: alphanumeric or underscore.\<close>

definition is_word :: "char \<Rightarrow> bool" where
  "is_word c = (let n = (of_char c :: nat) in
     (48 \<le> n \<and> n \<le> 57) \<or> (65 \<le> n \<and> n \<le> 90) \<or> n = 95 \<or> (97 \<le> n \<and> n \<le> 122) \<or>
     n = 170 \<or> n = 178 \<or> n = 179 \<or> n = 181 \<or> n = 185 \<or> n = 186 \<or>
     (188 \<le> n \<and> n \<le> 190) \<or> (192 \<le> n \<and> n \<le> 214) \<or> (216 \<le> n \<and> n \<le> 246) \<or>
     248 \<le> n)"

definition lower_char :: "char \<Rightarrow> char" where
  "lower_char c = (let n = (of_char c :: nat) in
     if (65 \<le> n \<and> n \<le> 90) \<or> (192 \<le> n \<and> n \<le> 222 \<and> n \<noteq> 215)
     then char_of (n + 32) else c)"

definition py_lower :: "string \<Rightarrow> string" where
  "py_lower s = map lower_char s"

primrec starts_with :: "string \<Rightarrow> string \<Rightarrow> bool" where
  "starts_with [] s = True"
| "starts_with (p # ps) s = (case s of [] \<Rightarrow> False | c # cs \<Rightarrow> p = c \<and> starts_with ps cs)"

text \<open>\<open>p in s\<close> on strings: \<open>p\<close> occurs as a substring.\<close>

fun py_in :: "string \<Rightarrow> string \<Rightarrow> bool" where
  "py_in p [] = (p = [])"
| "py_in p (c # cs) = (starts_with p (c # cs) \<or> py_in p cs)"

text \<open>\<open>s.split()\<close>: the maximal runs of non-whitespace characters.\<close>

fun split_ws :: "string \<Rightarrow> string \<Rightarrow> string list" where
  "split_ws cur [] = (if cur = [] then [] else [cur])"
| "split_ws cur (c # cs) =
     (if is_space c then (if cur = [] then split_ws [] cs else cur # split_ws [] cs)
      else split_ws (cur @ [c]) cs)"

definition py_split :: "string \<Rightarrow> string list" where
  "py_split s = split_ws [] s"

definition py_strip :: "string \<Rightarrow> string" where
  "py_strip s = rev (dropWhile is_space (rev (dropWhile is_space s)))"

text \<open>
  The regular expressions of \<open>phrases_to_remove\<close> all have one of two shapes: a literal, or
  a literal followed by the lazy \<open>.*?\<close> and a second (possibly empty) literal. \<open>.\<close> does
  not match a newline, and the lazy quantifier takes the shortest gap.
\<close>

datatype pattern = Lit string | LitLazy string string

fun lazy_gap :: "string \<Rightarrow> string \<Rightarrow> nat option" where
  "lazy_gap q [] = (if q = [] then Some 0 else None)"
| "lazy_gap q (c # cs) =
     (if starts_with q (c # cs) then Some 0
      else if c = CHR 0x0A then None
      else map_option Suc (lazy_gap q cs))"

fun match_len :: "pattern \<Rightarrow> string \<Rightarrow> nat option" where
  "match_len (Lit p) s = (if starts_with p s then Some (length p) else None)"
| "match_len (LitLazy p q) s =
     (if starts_with p s
      then map_option (\<lambda>k. length p + k + length q) (lazy_gap q (drop (length p) s))
      else None)"

text \<open>
  \<open>re.sub(pattern, "", s)\<close>: scanning from the left, every match is deleted and the scan
  resumes after it. The counter is the number of characters of the current match still
  to be dropped.
\<close>

fun delete_matches :: "pattern \<Rightarrow> nat \<Rightarrow> string \<Rightarrow> string" where
  "delete_matches p k [] = []"
| "delete_matches p (Suc k) (c # cs) = delete_matches p k cs"
| "delete_matches p 0 (c # cs) =
     (case match_len p (c # cs) of
        Some (Suc n) \<Rightarrow> delete_matches p n cs
      | _ \<Rightarrow> c # delete_matches p 0 cs)"

definition re_sub_empty :: "pattern \<Rightarrow> string \<Rightarrow> string" where
  "re_sub_empty p s = delete_matches p 0 s"

text \<open>\<open>re.sub(r'[^\w\s$%]', '', s)\<close>\<close>

definition remove_punctuation :: "string \<Rightarrow> string" where
  "remove_punctuation s =
     filter (\<lambda>c. is_word c \<or> is_space c \<or> c = CHR ''$'' \<or> c = CHR ''%'') s"

text \<open>\<open>re.sub(r'\s+', ' ', s)\<close>; the flag says that the previous character was whitespace.\<close>

fun collapse_ws :: "bool \<Rightarrow> string \<Rightarrow> string" where
  "collapse_ws in_run [] = []"
| "collapse_ws in_run (c # cs) =
     (if is_space c then (if in_run then collapse_ws True cs else CHR '' '' # collapse_ws True cs)
      else c # collapse_ws False cs)"

section \<open>\<open>BrowserExecutor._clean_search_query\<close>\<close>

definition clean_markers :: "string list" where
  "clean_markers =
     [''i'll'', ''let me'', ''first'', ''then'', ''help me'', ''please'', ''could you'']"

definition phrases_to_remove :: "pattern list" where
  "phrases_to_remove =
     [LitLazy ''i'll'' ''search for'',
      Lit ''let me search for'',
      Lit ''i will search for'',
      Lit ''help me find'',
      Lit ''please search for'',
      Lit ''could you search for'',
      Lit ''i need to find'',
      Lit ''i want to search for'',
      Lit ''search for'',
      Lit ''looking for'',
      Lit ''find'',
      LitLazy ''first,'' [],
      LitLazy ''then,'' [],
      LitLazy ''next,'' [],
      LitLazy ''finally,'' [],
      LitLazy ''i'll'' [],
      LitLazy ''i will'' [],
      LitLazy ''let's'' [],
      LitLazy ''let me'' []]"

definition already_clean :: "string \<Rightarrow> bool" where
  "already_clean query =
     (length (py_split query) \<le> 10 \<and>
      \<not> list_ex (\<lambda>phrase. py_in phrase (py_lower query)) clean_markers)"

definition clean_search_query :: "string \<Rightarrow> string" where
  "clean_search_query query =
     (if already_clean query then query
      else
        let cleaned_query = fold re_sub_empty phrases_to_remove (py_lower query);
            cleaned_query = remove_punctuation cleaned_query;
            cleaned_query = py_strip (collapse_ws False cleaned_query)
        in if length cleaned_query < 3 then py_strip (remove_punctuation query)
           else cleaned_query)"

section \<open>\<open>Agent._check_goal_completion\<close>\<close>

definition action_kind :: "action \<Rightarrow> pyval" where
  "action_kind a = py_get a ''action_type'' PNone"

text \<open>\<open>xs[-3:]\<close>: the last three elements, or all of a shorter list.\<close>

definition last_three :: "'a list \<Rightarrow> 'a list" where
  "last_three xs = drop (length xs - 3) xs"

definition check_goal_completion :: "action list \<Rightarrow> string \<Rightarrow> bool" where
  "check_goal_completion executed_actions goal_description =
     (if length executed_actions \<ge> 5 then
        (let action_types = map action_kind executed_actions in
           if count_list action_types (PStr ''click'') \<ge> 2
              \<and> last action_types = PStr ''capture_state'' then True
           else if count_list action_types (PStr ''scroll'') \<ge> 3
              \<and> PStr ''click'' \<notin> set (last_three action_types) then True
           else False)
      else False)"

text \<open>The smallest action of a given kind, used in examples.\<close>

definition act :: "string \<Rightarrow> action" where
  "act k = [(''action_type'', PStr k)]"

section \<open>The browser session and its environment\<close>

text \<open>
  The browser, the page-analysis service and the console are outside the program. Every
  call the program makes to them is recorded in the session's history, and what they
  answer is a function of the history so far, collected in \<open>env\<close>. The methods
  \<open>navigate\<close>, \<open>click\<close>, \<open>click_element_by_text\<close>, \<open>fill_input\<close>, \<open>scroll\<close>,
  \<open>search\<close>, \<open>capture_page_state\<close> and \<open>_take_screenshot\<close> catch every exception of
  their own, so at this level each is one recorded call that cannot raise. Console output
  is not modelled, apart from the messages the adaptive loop prints when it stops.
\<close>

datatype py_exception = AttributeError | TypeError | KeyError string

datatype call =
    Initialize
  | Screenshot string
  | Navigate pyval
  | Click pyval pyval
  | ClickText pyval
  | WaitForSelector string
  | FillInput pyval pyval pyval
  | PressEnter
  | Scroll pyval pyval
  | Sleep pyval
  | Search string
  | CapturePageState
  | PageAnalysis string
  | Summarize string
  | AskKeepOpen
  | Close

record page_state =
  ps_url :: string
  ps_title :: string
  ps_renders :: bool

datatype oracle_reply = OracleRaises | NotJson | Json pyval

record env =
  init_ok :: "call list \<Rightarrow> bool"
  page_url :: "call list \<Rightarrow> string"
  selector_visible :: "call list \<Rightarrow> bool"
  capture_result :: "call list \<Rightarrow> page_state option"
  oracle_answer :: "call list \<Rightarrow> oracle_reply"
  summary_text :: "call list \<Rightarrow> string"
  listings_text :: "call list \<Rightarrow> string"
  keep_open_answer :: "call list \<Rightarrow> string"
  close_ok :: "call list \<Rightarrow> bool"
  py_repr :: "pyval \<Rightarrow> string"
  exception_text :: "py_exception \<Rightarrow> string"

text \<open>
  \<open>ps_renders\<close> says whether the snapshot has every field the textual summary reads;
  \<open>selector_visible\<close> whether \<open>wait_for_selector\<close> returned an element (it raises
  otherwise); \<open>py_repr\<close> is what an f-string prints for a value that is not a string;
  \<open>exception_text\<close> is \<open>str(e)\<close>.
\<close>

record executor =
  is_initialized :: bool
  calls :: "call list"

definition log :: "call list \<Rightarrow> executor \<Rightarrow> executor" where
  "log cs st = st\<lparr>calls := calls st @ cs\<rparr>"

definition py_str :: "env \<Rightarrow> pyval \<Rightarrow> string" where
  "py_str e v = (case v of PStr s \<Rightarrow> s | _ \<Rightarrow> py_repr e v)"

definition quote :: string where
  "quote = [CHR 0x27]"

definition newline :: string where
  "newline = [CHR 0x0A]"

text \<open>\<open>BrowserExecutor.initialize\<close>: every exception of the start-up is caught.\<close>

definition initialize :: "env \<Rightarrow> executor \<Rightarrow> bool \<times> executor" where
  "initialize e st =
     (if \<not> is_initialized st then
        (if init_ok e (calls st) then (True, (log [Initialize] st)\<lparr>is_initialized := True\<rparr>)
         else (False, log [Initialize] st))
      else (True, st))"

text \<open>The guard \<open>if not self.is_initialized: if not await self.initialize(): return ...\<close>\<close>

definition ensure_initialized :: "env \<Rightarrow> executor \<Rightarrow> bool \<times> executor" where
  "ensure_initialized e st = (if \<not> is_initialized st then initialize e st else (True, st))"

text \<open>\<open>_take_screenshot\<close> does nothing on a session that is not initialized.\<close>

definition take_screenshot :: "string \<Rightarrow> executor \<Rightarrow> executor" where
  "take_screenshot name st = (if \<not> is_initialized st then st else log [Screenshot name] st)"

definition capture_page_state :: "env \<Rightarrow> executor \<Rightarrow> page_state option \<times> executor" where
  "capture_page_state e st =
     (case ensure_initialized e st of
        (False, st1) \<Rightarrow> (None, st1)
      | (True, st1) \<Rightarrow> (capture_result e (calls st1), log [CapturePageState] st1))"

section \<open>\<open>BrowserExecutor.execute_action\<close>\<close>

text \<open>\<open>x in v\<close> raises \<open>TypeError\<close> when \<open>v\<close> is not a container.\<close>

fun not_iterable :: "pyval \<Rightarrow> bool" where
  "not_iterable PNone = True"
| "not_iterable (PBool b) = True"
| "not_iterable (PInt i) = True"
| "not_iterable v = False"

text \<open>\<open>asyncio.sleep\<close> compares its argument with a number.\<close>

fun sleep_raises :: "pyval \<Rightarrow> bool" where
  "sleep_raises (PInt i) = False"
| "sleep_raises (PBool b) = False"
| "sleep_raises v = True"

definition search_selectors :: "string list" where
  "search_selectors =
     [''input[type='' @ quote @ ''search'' @ quote @ '']'',
      ''input[name='' @ quote @ ''search'' @ quote @ '']'',
      ''input[placeholder*='' @ quote @ ''search'' @ quote @ '' i]'',
      ''input[placeholder*='' @ quote @ ''find'' @ quote @ '' i]'',
      ''input[placeholder*='' @ quote @ ''location'' @ quote @ '' i]'',
      ''input[placeholder*='' @ quote @ ''address'' @ quote @ '' i]'',
      ''input[placeholder*='' @ quote @ ''city'' @ quote @ '' i]'',
      ''input[placeholder*='' @ quote @ ''where'' @ quote @ '' i]'',
      ''input[aria-label*='' @ quote @ ''search'' @ quote @ '' i]'',
      ''input.search-input'',
      ''.search-box input'',
      ''.searchbox input'',
      ''[data-rf-test-id='' @ quote @ ''search-box-input'' @ quote @ '']'',
      ''[data-rf-test-name='' @ quote @ ''search-box-input'' @ quote @ '']'',
      ''input#search-box-input'']"

text \<open>
  The loop of the \<open>input\<close> branch over the candidate search boxes: the first one that is
  visible is filled, Enter is pressed and the action returns.
\<close>

fun try_search_boxes ::
  "env \<Rightarrow> pyval \<Rightarrow> string list \<Rightarrow> executor \<Rightarrow> (py_exception + string) \<times> executor" where
  "try_search_boxes e v [] st =
     (Inr (''Error: Could not find a search box to fill with value: '' @ py_str e v), st)"
| "try_search_boxes e v (sel # sels) st =
     (if selector_visible e (calls st)
      then (Inr (''Filled search box with value: '' @ py_str e v),
            take_screenshot ''input_search''
              (log [WaitForSelector sel, FillInput (PStr sel) v (PStr ''css''), PressEnter] st))
      else try_search_boxes e v sels (log [WaitForSelector sel] st))"

definition search_engines :: "string list" where
  "search_engines = [''google.com'', ''bing.com'', ''yahoo.com'', ''duckduckgo.com'']"

text \<open>
  The end of the \<open>search\<close> branch, reached when the action names no usable website: a
  page of a search engine is used as it is, any other page is left for Google.
\<close>

definition search_without_website ::
  "env \<Rightarrow> string \<Rightarrow> executor \<Rightarrow> (py_exception + string) \<times> executor" where
  "search_without_website e query st =
     (let current_url = page_url e (calls st)
      in if list_ex (\<lambda>domain. py_in domain current_url) search_engines then
           (Inr (''Searched for '' @ quote @ query @ quote @ '' on current page''),
            take_screenshot ''search_current'' (log [Search query] st))
         else
           (Inr (''Searched for '' @ quote @ query @ quote @ '' on Google''),
            take_screenshot ''search_google''
              (log [Navigate (PStr ''https://www.google.com''), Search query] st)))"

text \<open>The body of the \<open>try\<close> block, after the screenshot taken before the action.\<close>

definition run_action ::
  "env \<Rightarrow> string \<Rightarrow> action \<Rightarrow> executor \<Rightarrow> (py_exception + string) \<times> executor" where
  "run_action e action_type action st =
     (if action_type = ''navigate'' then
        (let url = py_get action ''url'' (PStr []) in
         if truthy url then
           (if not_iterable url then (Inl TypeError, st)
            else (Inr (''Navigated to: '' @ py_str e url),
                  take_screenshot ''navigate'' (log [Navigate url] st)))
         else (Inr ''Error: No URL provided for navigation'', st))
      else if action_type = ''click'' then
        (let selector = py_get action ''selector'' PNone;
             text = py_get action ''text'' PNone;
             selector_type = py_get action ''selector_type'' (PStr ''css'')
         in if truthy selector then
              (Inr (''Clicked element with selector: '' @ py_str e selector),
               take_screenshot ''click'' (log [Click selector selector_type] st))
            else if truthy text then
              (Inr (''Clicked element with text: '' @ py_str e text),
               take_screenshot ''click_text'' (log [ClickText text] st))
            else (Inr ''Error: No selector or text provided for click action'', st))
      else if action_type = ''input'' then
        (let selector = py_get action ''selector'' PNone;
             v = py_get action ''value'' (PStr []);
             selector_type = py_get action ''selector_type'' (PStr ''css'')
         in if \<not> truthy selector then try_search_boxes e v search_selectors st
            else (Inr (''Filled input '' @ py_str e selector @ '' with value: '' @ py_str e v),
                  take_screenshot ''input_selector''
                    (log [FillInput selector v selector_type, PressEnter] st)))
      else if action_type = ''scroll'' then
        (let direction = py_get action ''direction'' (PStr ''down'');
             distance = py_get action ''distance'' (PInt 500)
         in (Inr (''Scrolled '' @ py_str e direction @ '' by '' @ py_str e distance @ '' pixels''),
             take_screenshot ''scroll'' (log [Scroll direction distance] st)))
      else if action_type = ''wait'' then
        (let duration = py_get action ''duration'' (PInt 2)
         in if sleep_raises duration then (Inl TypeError, st)
            else (Inr (''Waited for '' @ py_str e duration @ '' seconds''),
                  log [Sleep duration] st))
      else if action_type = ''search'' then
        (case py_get action ''query'' (PStr []) of
           PStr q \<Rightarrow>
             (let query = clean_search_query q;
                  website = py_get action ''website'' PNone
              in case website of
                   PDict w \<Rightarrow>
                     (if truthy website \<and> has_key w ''url'' then
                        (let st1 = log [Navigate (py_get w ''url'' PNone)] st
                         in if has_key w ''name'' then
                              (Inr (''Searched for '' @ quote @ query @ quote @ '' on ''
                                      @ py_str e (py_get w ''name'' PNone)),
                               take_screenshot ''search_website'' (log [Search query] st1))
                            else (Inl (KeyError ''name''), st1))
                      else search_without_website e query st)
                 | _ \<Rightarrow> search_without_website e query st)
         | _ \<Rightarrow> (Inl AttributeError, st))
      else if action_type = ''capture_state'' then
        (Inr ''Captured current page state'', snd (capture_page_state e st))
      else (Inr (''Error: Unknown action type: '' @ action_type), st))"

text \<open>
  \<open>execute_action\<close> itself. The session guard and the lower-casing of \<open>action_type\<close>
  come before the \<open>try\<close>; an exception of the branches is turned into an error string.
\<close>

definition execute_action ::
  "env \<Rightarrow> action \<Rightarrow> executor \<Rightarrow> (py_exception + string) \<times> executor" where
  "execute_action e action st0 =
     (case ensure_initialized e st0 of
        (False, st1) \<Rightarrow> (Inr ''Failed to initialize browser.'', st1)
      | (True, st1) \<Rightarrow>
          (case py_get action ''action_type'' (PStr []) of
             PStr s \<Rightarrow>
               (let action_type = py_lower s
                in case run_action e action_type action
                          (take_screenshot (''before_'' @ action_type) st1) of
                     (Inl ex, st2) \<Rightarrow>
                       (Inr (''Error executing '' @ action_type @ '' action: ''
                               @ exception_text e ex), st2)
                   | (Inr result, st2) \<Rightarrow> (Inr result, st2))
           | _ \<Rightarrow> (Inl AttributeError, st1)))"

section \<open>The page-analysis adapter\<close>

definition fallback_action :: "string \<Rightarrow> action" where
  "fallback_action note =
     [(''action_type'', PStr ''scroll''),
      (''direction'', PStr ''down''),
      (''distance'', PInt 500),
      (''description'', PStr (''Scroll down to see more content ('' @ note @ '')''))]"

text \<open>The conversion of a parsed reply, inside \<open>utils.get_ai_page_analysis\<close>.\<close>

definition convert_action :: "env \<Rightarrow> action \<Rightarrow> action" where
  "convert_action e next_action =
     (let converted_action =
            [(''action_type'', py_get next_action ''action_type'' (PStr ''scroll'')),
             (''description'',
                py_get next_action ''description'' (PStr ''No description provided''))];
          kind = py_get next_action ''action_type'' PNone
      in if kind = PStr ''click'' then
           (let selector_strategy = py_get next_action ''selector_strategy'' (PStr ''text'');
                selector_value = py_get next_action ''selector_value'' (PStr [])
            in if selector_strategy = PStr ''id'' then
                 converted_action @ [(''selector'', PStr (''#'' @ py_str e selector_value))]
               else if selector_strategy = PStr ''class'' then
                 converted_action @ [(''selector'', PStr (''.'' @ py_str e selector_value))]
               else if selector_strategy = PStr ''xpath'' then
                 converted_action
                   @ [(''selector'', selector_value), (''selector_type'', PStr ''xpath'')]
               else converted_action @ [(''text'', selector_value)])
         else if kind = PStr ''input'' then
           (let selector_strategy = py_get next_action ''selector_strategy'' (PStr ''id'');
                selector_value = py_get next_action ''selector_value'' (PStr []);
                selector =
                  (if selector_strategy = PStr ''id'' then ''#'' @ py_str e selector_value
                   else if selector_strategy = PStr ''name'' then
                     ''[name='' @ quote @ py_str e selector_value @ quote @ '']''
                   else if selector_strategy = PStr ''placeholder'' then
                     ''[placeholder='' @ quote @ py_str e selector_value @ quote @ '']''
                   else ''#'' @ py_str e selector_value)
            in converted_action
                 @ [(''selector'', PStr selector),
                    (''value'', py_get next_action ''input_value'' (PStr []))])
         else if kind = PStr ''scroll'' then
           converted_action
             @ [(''direction'', py_get next_action ''direction'' (PStr ''down'')),
                (''distance'', py_get next_action ''distance'' (PInt 500))]
         else if kind = PStr ''wait'' then
           converted_action @ [(''duration'', py_get next_action ''duration'' (PInt 2))]
         else if kind = PStr ''navigate'' then
           converted_action @ [(''url'', py_get next_action ''url'' (PStr []))]
         else converted_action)"

text \<open>
  \<open>utils.get_ai_page_analysis\<close>, given what the service answered. A reply that parses to
  something other than an object makes \<open>.get\<close> raise, which the outer handler catches.
\<close>

definition get_ai_page_analysis :: "env \<Rightarrow> oracle_reply \<Rightarrow> action" where
  "get_ai_page_analysis e reply =
     (case reply of
        OracleRaises \<Rightarrow> fallback_action ''fallback action after exception''
      | NotJson \<Rightarrow> fallback_action ''fallback action after JSON parse error''
      | Json v \<Rightarrow>
          (case v of
             PDict next_action \<Rightarrow> convert_action e next_action
           | _ \<Rightarrow> fallback_action ''fallback action after exception''))"

text \<open>\<open>BrowserExecutor.analyze_page_for_next_action\<close>\<close>

definition analyze_page_for_next_action ::
  "env \<Rightarrow> string \<Rightarrow> executor \<Rightarrow> action option \<times> executor" where
  "analyze_page_for_next_action e goal_description st =
     (case ensure_initialized e st of
        (False, st1) \<Rightarrow> (None, st1)
      | (True, st1) \<Rightarrow>
          (case capture_page_state e st1 of
             (None, st2) \<Rightarrow> (None, st2)
           | (Some ps, st2) \<Rightarrow>
               if \<not> ps_renders ps then (Some (fallback_action ''fallback after error''), st2)
               else
                 (let next_action = get_ai_page_analysis e (oracle_answer e (calls st2));
                      st3 = log [PageAnalysis goal_description] st2
                  in if next_action \<noteq> [] \<and> has_key next_action ''action_type''
                     then (Some next_action, st3)
                     else (Some (fallback_action ''fallback action''), st3))))"

section \<open>\<open>Agent._execute_browser_actions\<close>: the adaptive loop\<close>

definition max_actions :: nat where
  "max_actions = 20"

text \<open>
  The local variables of one run, with the session and the stop messages printed to the
  console.
\<close>

record run =
  exec :: executor
  results :: "string list"
  executed_actions :: "action list"
  action_count :: nat
  console :: "string list"

text \<open>
  \<open>_display_action_info\<close> only prints, but for a \<open>navigate\<close> action it first tests
  \<open>"redfin.com" in url\<close>, which raises when the URL is not a container.
\<close>

definition display_raises :: "action \<Rightarrow> bool" where
  "display_raises a =
     (py_get a ''action_type'' (PStr []) = PStr ''navigate''
      \<and> not_iterable (py_get a ''url'' (PStr [])))"

datatype step = Continue run | Stop run | Raise py_exception run

definition stop_with :: "string \<Rightarrow> executor \<Rightarrow> run \<Rightarrow> step" where
  "stop_with message st r = Stop (r\<lparr>exec := st, console := console r @ [message]\<rparr>)"

text \<open>One pass through the body of the \<open>while\<close> loop.\<close>

definition loop_body :: "env \<Rightarrow> string \<Rightarrow> run \<Rightarrow> step" where
  "loop_body e goal_description r =
     (case capture_page_state e (exec r) of
        (None, st1) \<Rightarrow>
          stop_with ''Error capturing page state. Stopping execution.'' st1 r
      | (Some page_state, st1) \<Rightarrow>
          (case analyze_page_for_next_action e goal_description st1 of
             (None, st2) \<Rightarrow>
               stop_with ''No further actions suggested. Stopping execution.'' st2 r
           | (Some next_action, st2) \<Rightarrow>
               if next_action = [] then
                 stop_with ''No further actions suggested. Stopping execution.'' st2 r
               else if check_goal_completion (executed_actions r) goal_description then
                 stop_with ''Goal appears to be completed. Stopping execution.'' st2 r
               else if display_raises next_action then
                 Raise TypeError (r\<lparr>exec := st2, action_count := action_count r + 1\<rparr>)
               else
                 (case execute_action e next_action st2 of
                    (Inl ex, st3) \<Rightarrow>
                      Raise ex (r\<lparr>exec := st3, action_count := action_count r + 1\<rparr>)
                  | (Inr result, st3) \<Rightarrow>
                      Continue
                        (r\<lparr>exec := log [Sleep (PInt 1)] st3,
                           results := results r @ [result],
                           executed_actions := executed_actions r @ [next_action],
                           action_count := action_count r + 1\<rparr>))))"

lemma loop_body_Continue_count:
  "loop_body e g r = Continue r' \<Longrightarrow> action_count r' = action_count r + 1"
  by (auto simp: loop_body_def stop_with_def
           split: prod.splits option.splits if_splits sum.splits)

text \<open>
  \<open>while action_count < max_actions\<close>. The result is the exception that left the loop, if
  any, and the variables at that point.
\<close>

function adaptive_loop :: "env \<Rightarrow> string \<Rightarrow> run \<Rightarrow> py_exception option \<times> run" where
  "adaptive_loop e goal_description r =
     (if action_count r < max_actions then
        (case loop_body e goal_description r of
           Continue r' \<Rightarrow> adaptive_loop e goal_description r'
         | Stop r' \<Rightarrow> (None, r')
         | Raise ex r' \<Rightarrow> (Some ex, r'))
      else (None, r))"
  by pat_completeness auto
termination
proof (relation "measure (\<lambda>(e, g, r). max_actions - action_count r)")
  show "wf (measure (\<lambda>(e, g, r). max_actions - action_count r))"
    by simp
next
  fix e g r r'
  assume "action_count r < max_actions" and "loop_body e g r = Continue r'"
  then show "((e, g, r'), (e, g, r)) \<in> measure (\<lambda>(e, g, r). max_actions - action_count r)"
    by (simp add: loop_body_Continue_count)
qed

declare adaptive_loop.simps [simp del]

text \<open>\<open>BrowserExecutor.close\<close>: a failure to close is caught and leaves the session open.\<close>

definition close :: "env \<Rightarrow> executor \<Rightarrow> executor" where
  "close e st =
     (if is_initialized st then
        (if close_ok e (calls st) then (log [Close] st)\<lparr>is_initialized := False\<rparr>
         else log [Close] st)
      else st)"

fun py_join :: "string \<Rightarrow> string list \<Rightarrow> string" where
  "py_join sep [] = []"
| "py_join sep [x] = x"
| "py_join sep (x # y # ys) = x @ sep @ py_join sep (y # ys)"

definition real_estate_domains :: "string list" where
  "real_estate_domains = [''redfin.com'', ''zillow.com'', ''apartments.com'', ''trulia.com'']"

text \<open>
  The text about the final page. The summary comes from the summarizing service and the
  listings from pattern matching over the page's elements; both are taken from the
  environment.
\<close>

definition page_info :: "env \<Rightarrow> page_state option \<Rightarrow> executor \<Rightarrow> string" where
  "page_info e final_state st =
     (case final_state of
        None \<Rightarrow> []
      | Some ps \<Rightarrow>
          ''Final URL: '' @ ps_url ps @ newline @ ''Page Title: '' @ ps_title ps
          @ newline @ newline
          @ ''Search Results Summary:'' @ newline @ summary_text e (calls st)
          @ newline @ newline
          @ (if list_ex (\<lambda>domain. py_in domain (ps_url ps)) real_estate_domains
             then listings_text e (calls st) else []))"

definition format_report :: "env \<Rightarrow> action list \<Rightarrow> string \<Rightarrow> string list \<Rightarrow> string" where
  "format_report e executed info res =
     newline @ ''Browser Automation Results:'' @ newline @ newline
     @ ''Actions Executed:'' @ newline
     @ py_join newline
         (map (\<lambda>a. ''- '' @ py_str e (py_get a ''description'' (PStr ''No description'')))
              executed)
     @ newline @ newline @ info @ newline @ newline
     @ ''Results:'' @ newline @ py_join '' '' res @ newline"

text \<open>What follows the loop when no exception left it.\<close>

definition finish :: "env \<Rightarrow> string \<Rightarrow> run \<Rightarrow> string \<times> run" where
  "finish e goal_description r =
     (let r1 = (if action_count r \<ge> max_actions
                then r\<lparr>console := console r
                        @ [''Reached maximum number of actions. Stopping execution.'']\<rparr>
                else r);
          (final_state, st1) = capture_page_state e (exec r1);
          info = page_info e final_state st1;
          st2 = (if final_state = None then st1 else log [Summarize goal_description] st1);
          keep_open = keep_open_answer e (calls st2);
          st3 = log [AskKeepOpen] st2;
          st4 = (if py_lower keep_open \<noteq> ''y'' then close e st3 else st3)
      in (format_report e (executed_actions r1) info (results r1), r1\<lparr>exec := st4\<rparr>))"

text \<open>The handler of the outer \<open>try\<close>.\<close>

definition handle_exception :: "env \<Rightarrow> py_exception \<Rightarrow> run \<Rightarrow> string \<times> run" where
  "handle_exception e ex r =
     (''Error executing browser actions: '' @ exception_text e ex,
      r\<lparr>exec := close e (exec r)\<rparr>)"

definition new_executor :: executor where
  "new_executor = \<lparr>is_initialized = False, calls = []\<rparr>"

definition start :: "executor \<Rightarrow> run" where
  "start st =
     \<lparr>exec = st, results = [], executed_actions = [], action_count = 0, console = []\<rparr>"

text \<open>
  \<open>_execute_browser_actions\<close>. The last argument is \<open>self.browser_executor\<close>: \<open>None\<close>
  before the first run, the session of an earlier run afterwards.
\<close>

definition execute_browser_actions ::
  "env \<Rightarrow> action list \<Rightarrow> string \<Rightarrow> executor option \<Rightarrow> string \<times> run" where
  "execute_browser_actions e browser_plan goal_description browser_executor =
     (case browser_plan of
        [] \<Rightarrow>
          (''No browser actions to execute.'',
           start (case browser_executor of None \<Rightarrow> new_executor | Some st \<Rightarrow> st))
      | initial_action # rest \<Rightarrow>
          (case (case browser_executor of
                   None \<Rightarrow> initialize e new_executor
                 | Some st \<Rightarrow> (True, st)) of
             (False, st) \<Rightarrow> (''Failed to initialize browser.'', start st)
           | (True, st) \<Rightarrow>
               if display_raises initial_action then handle_exception e TypeError (start st)
               else
                 (case execute_action e initial_action st of
                    (Inl ex, st1) \<Rightarrow> handle_exception e ex ((start st)\<lparr>exec := st1\<rparr>)
                  | (Inr result, st1) \<Rightarrow>
                      (case adaptive_loop e goal_description
                              \<lparr>exec = st1, results = [result],
                               executed_actions = [initial_action],
                               action_count = 1, console = []\<rparr> of
                         (Some ex, r) \<Rightarrow> handle_exception e ex r
                       | (None, r) \<Rightarrow> finish e goal_description r))))"

section \<open>Example environments\<close>

text \<open>
  A browser that starts, shows one fixed page and finds no search box; a page-analysis
  service that always suggests scrolling down; a user who closes the browser at the end.
\<close>

definition example_page :: page_state where
  "example_page =
     \<lparr>ps_url = ''https://www.example.com/'', ps_title = ''Example'', ps_renders = True\<rparr>"

definition example_env :: env where
  "example_env =
     \<lparr>init_ok = (\<lambda>h. True),
      page_url = (\<lambda>h. ''https://www.example.com/''),
      selector_visible = (\<lambda>h. False),
      capture_result = (\<lambda>h. Some example_page),
      oracle_answer = (\<lambda>h. Json (PDict [(''action_type'', PStr ''scroll'')])),
      summary_text = (\<lambda>h. ''nothing found''),
      listings_text = (\<lambda>h. []),
      keep_open_answer = (\<lambda>h. ''n''),
      close_ok = (\<lambda>h. True),
      py_repr = (\<lambda>v. ''?''),
      exception_text = (\<lambda>ex. ''error'')\<rparr>"

definition ready :: executor where
  "ready = \<lparr>is_initialized = True, calls = []\<rparr>"

text \<open>The kinds of action the specification lists as recognized.\<close>

definition recognized_kinds :: "string list" where
  "recognized_kinds =
     [''navigate'', ''click'', ''input'', ''scroll'', ''wait'', ''search'', ''capture_state'']"

text \<open>A plan of one action that opens the example page.\<close>

definition open_example :: action where
  "open_example =
     [(''action_type'', PStr ''navigate''),
      (''url'', PStr ''https://www.example.com/''),
      (''description'', PStr ''Open the example site'')]"



section \<open>Properties of the goal-completion heuristic\<close>





text \<open>
  C10. The heuristic does not depend on the goal description: two goals give the same
  answer on the same executed actions, and two action lists whose \<open>action_type\<close> fields
  agree position by position give the same answer whatever the goals are.
\<close>

theorem check_goal_completion_goal_independent:
  "check_goal_completion A g1 = check_goal_completion A g2
   \<and> (map action_kind A = map action_kind B
        \<longrightarrow> check_goal_completion A g1 = check_goal_completion B g2)"
proof -
  have "length A = length B" if "map action_kind A = map action_kind B"
    using that by (rule map_eq_imp_length_eq)
  then show ?thesis
    by (auto simp: check_goal_completion_def Let_def)
qed

theorem check_goal_completion_goal_independent_witness:
  "check_goal_completion
     (replicate 5 [(''action_type'', PStr ''scroll''), (''distance'', PInt 500)])
     ''find rental apartments''
   = check_goal_completion (replicate 5 (act ''scroll'')) ''find jobs''"
proof -
  have h: "map action_kind
             (replicate 5 [(''action_type'', PStr ''scroll''), (''distance'', PInt 500)])
           = map action_kind (replicate 5 (act ''scroll''))"
    by (simp add: act_def action_kind_def py_get_def)
  show ?thesis
    using h check_goal_completion_goal_independent
      [of "replicate 5 [(''action_type'', PStr ''scroll''), (''distance'', PInt 500)]"
          "''find rental apartments''" "''find jobs''" "replicate 5 (act ''scroll'')"]
    by blast
qed

section \<open>Properties of the search-query sanitizer\<close>

text \<open>
  C5 as stated: on the query "I'll search for rental apartments in New York under $3000"
  the output would contain "rental apartments", "New York" and "$3000" and neither "I'll"
  nor "search for". The code lower-cases the query before it removes the phrases, so
  "New York" does not occur in the output.
\<close>

theorem clean_search_query_keeps_case_counterexample:
  "\<not> (py_in ''rental apartments''
         (clean_search_query ''I'll search for rental apartments in New York under $3000'')
      \<and> py_in ''New York''
         (clean_search_query ''I'll search for rental apartments in New York under $3000'')
      \<and> py_in ''$3000''
         (clean_search_query ''I'll search for rental apartments in New York under $3000'')
      \<and> \<not> py_in ''I'll''
         (clean_search_query ''I'll search for rental apartments in New York under $3000'')
      \<and> \<not> py_in ''search for''
         (clean_search_query ''I'll search for rental apartments in New York under $3000''))"
  by code_simp

text \<open>
  C5, amended. On that query the output is "rental apartments in new york under $3000":
  it contains "rental apartments", "new york" (in lower case) and "$3000", and none of
  "I'll", "i'll" and "search for".
\<close>

theorem clean_search_query_example:
  "clean_search_query ''I'll search for rental apartments in New York under $3000''
     = ''rental apartments in new york under $3000''
   \<and> py_in ''rental apartments'' ''rental apartments in new york under $3000''
   \<and> py_in ''new york'' ''rental apartments in new york under $3000''
   \<and> py_in ''$3000'' ''rental apartments in new york under $3000''
   \<and> \<not> py_in ''I'll'' ''rental apartments in new york under $3000''
   \<and> \<not> py_in ''i'll'' ''rental apartments in new york under $3000''
   \<and> \<not> py_in ''search for'' ''rental apartments in new york under $3000''"
  by code_simp



text \<open>
  The phrases are looked for as substrings of the lower-cased query, also inside a longer
  word: "Athens" contains "then", so this query is not taken as clean and comes back in
  lower case.
\<close>

lemma clean_search_query_marker_inside_word:
  "clean_search_query ''Athens hotels'' = ''athens hotels''"
  by code_simp

section \<open>Properties of the adaptive loop\<close>

lemma adaptive_loop_bound:
  "action_count r \<le> max_actions \<Longrightarrow> length (executed_actions r) \<le> action_count r \<Longrightarrow>
   action_count (snd (adaptive_loop e g r)) \<le> max_actions
   \<and> length (executed_actions (snd (adaptive_loop e g r))) \<le> action_count (snd (adaptive_loop e g r))"
proof (induction e g r rule: adaptive_loop.induct)
  case (1 e g r)
  show ?case
  proof (cases "action_count r < max_actions")
    case False
    with "1.prems" show ?thesis by (simp add: adaptive_loop.simps)
  next
    case True
    show ?thesis
    proof (cases "loop_body e g r")
      case (Continue r')
      have c: "action_count r' = action_count r + 1"
        using Continue by (rule loop_body_Continue_count)
      have l: "length (executed_actions r') = length (executed_actions r) + 1"
        using Continue
        by (auto simp: loop_body_def stop_with_def
                 split: prod.splits option.splits if_splits sum.splits)
      have "action_count r' \<le> max_actions" using c True by simp
      moreover have "length (executed_actions r') \<le> action_count r'"
        using c l "1.prems" by simp
      ultimately show ?thesis
        using "1.IH" [OF True Continue] True Continue
        by (simp add: adaptive_loop.simps [of e g r])
    next
      case (Stop r')
      then have "action_count r' = action_count r \<and> executed_actions r' = executed_actions r"
        by (auto simp: loop_body_def stop_with_def
                 split: prod.splits option.splits if_splits sum.splits)
      with Stop True "1.prems" show ?thesis
        by (simp add: adaptive_loop.simps [of e g r])
    next
      case (Raise ex r')
      then have "action_count r' = action_count r + 1 \<and> executed_actions r' = executed_actions r"
        by (auto simp: loop_body_def stop_with_def
                 split: prod.splits option.splits if_splits sum.splits)
      with Raise True "1.prems" show ?thesis
        by (simp add: adaptive_loop.simps [of e g r])
    qed
  qed
qed

lemma finish_keeps:
  "action_count (snd (finish e g r)) = action_count r
   \<and> executed_actions (snd (finish e g r)) = executed_actions r"
  by (simp add: finish_def Let_def split: prod.splits)

lemma handle_exception_keeps:
  "action_count (snd (handle_exception e ex r)) = action_count r
   \<and> executed_actions (snd (handle_exception e ex r)) = executed_actions r"
  by (simp add: handle_exception_def)

text \<open>
  C1. Whatever the initial plan and whatever the browser and the page-analysis service
  answer (the environment is arbitrary, so a service that always suggests a new valid
  action is included), a run ends: \<open>adaptive_loop\<close> is a total function, its termination
  being proved from the counter that grows towards \<open>max_actions\<close>. The run executes at
  most \<open>max_actions + 1\<close> actions; in fact the counter never exceeds \<open>max_actions\<close>,
  which is 20.
\<close>

theorem run_bounded:
  "length (executed_actions (snd (execute_browser_actions e browser_plan g ex)))
     \<le> action_count (snd (execute_browser_actions e browser_plan g ex))
   \<and> action_count (snd (execute_browser_actions e browser_plan g ex)) \<le> max_actions
   \<and> length (executed_actions (snd (execute_browser_actions e browser_plan g ex)))
     \<le> max_actions + 1
   \<and> max_actions = 20"
proof -
  let ?r = "snd (execute_browser_actions e browser_plan g ex)"
  have main: "length (executed_actions ?r) \<le> action_count ?r \<and> action_count ?r \<le> max_actions"
  proof (cases browser_plan)
    case Nil
    then show ?thesis by (simp add: execute_browser_actions_def start_def)
  next
    case (Cons a rest)
    obtain ok st where i: "(case ex of None \<Rightarrow> initialize e new_executor | Some st \<Rightarrow> (True, st)) = (ok, st)"
      by (cases "(case ex of None \<Rightarrow> initialize e new_executor | Some st \<Rightarrow> (True, st))")
    show ?thesis
    proof (cases ok)
      case False
      with Cons i show ?thesis by (simp add: execute_browser_actions_def start_def)
    next
      case True
      note ok = this
      show ?thesis
      proof (cases "display_raises a")
        case True
        with Cons i ok show ?thesis
          by (simp add: execute_browser_actions_def start_def handle_exception_keeps)
      next
        case False
        note nd = this
        obtain res st1 where x: "execute_action e a st = (res, st1)"
          by (cases "execute_action e a st")
        show ?thesis
        proof (cases res)
          case (Inl exn)
          with Cons i ok nd x show ?thesis
            by (simp add: execute_browser_actions_def start_def handle_exception_keeps)
        next
          case (Inr result)
          let ?r0 = "\<lparr>exec = st1, results = [result], executed_actions = [a],
                       action_count = 1, console = []\<rparr>"
          have b: "action_count (snd (adaptive_loop e g ?r0)) \<le> max_actions
                   \<and> length (executed_actions (snd (adaptive_loop e g ?r0)))
                       \<le> action_count (snd (adaptive_loop e g ?r0))"
            by (rule adaptive_loop_bound) (simp_all add: max_actions_def)
          obtain oe r where l: "adaptive_loop e g ?r0 = (oe, r)"
            by (cases "adaptive_loop e g ?r0")
          from b l have "action_count r \<le> max_actions \<and> length (executed_actions r) \<le> action_count r"
            by simp
          with Cons i ok nd x Inr l show ?thesis
            by (cases oe) (simp_all add: execute_browser_actions_def finish_keeps handle_exception_keeps)
        qed
      qed
    qed
  qed
  then show ?thesis by (simp add: max_actions_def)
qed

text \<open>
  The bound is reached: with a service that always suggests a short wait, which the
  goal-completion heuristic never takes for the end, the run executes exactly 20 actions
  and reports that it reached the maximum.
\<close>

lemma run_reaches_limit:
  "length (executed_actions (snd (execute_browser_actions
       (example_env\<lparr>oracle_answer :=
          (\<lambda>h. Json (PDict [(''action_type'', PStr ''wait''), (''duration'', PInt 0)]))\<rparr>)
       [open_example] ''goal'' None))) = 20
   \<and> console (snd (execute_browser_actions
       (example_env\<lparr>oracle_answer :=
          (\<lambda>h. Json (PDict [(''action_type'', PStr ''wait''), (''duration'', PInt 0)]))\<rparr>)
       [open_example] ''goal'' None))
     = [''Reached maximum number of actions. Stopping execution.'']"
  by code_simp

section \<open>Properties of the executor\<close>

text \<open>
  C2. Whatever the action dictionary, when the session is not initialized and its
  initialization fails, \<open>execute_action\<close> returns the string "Failed to initialize
  browser." and raises nothing.
\<close>

theorem execute_action_init_failure:
  "\<not> is_initialized st \<Longrightarrow> \<not> init_ok e (calls st) \<Longrightarrow>
   execute_action e a st = (Inr ''Failed to initialize browser.'', log [Initialize] st)"
  by (simp add: execute_action_def ensure_initialized_def initialize_def)

theorem execute_action_init_failure_witness:
  "execute_action (example_env\<lparr>init_ok := (\<lambda>h. False)\<rparr>) (act ''click'') new_executor
     = (Inr ''Failed to initialize browser.'', \<lparr>is_initialized = False, calls = [Initialize]\<rparr>)"
proof -
  have a: "\<not> is_initialized new_executor" by (simp add: new_executor_def)
  have b: "\<not> init_ok (example_env\<lparr>init_ok := (\<lambda>h. False)\<rparr>) (calls new_executor)" by simp
  show ?thesis
    using execute_action_init_failure [OF a b, of "act ''click''"]
    by (simp add: log_def new_executor_def)
qed

text \<open>
  On a ready session every action whose kind is a string (or is missing) gets a result
  string: the exceptions of the branches are caught.
\<close>

lemma execute_action_returns_string:
  "is_initialized st \<Longrightarrow> py_get a ''action_type'' (PStr []) = PStr s \<Longrightarrow>
   \<exists>t. fst (execute_action e a st) = Inr t"
  by (auto simp: execute_action_def ensure_initialized_def Let_def split: prod.splits sum.splits)

lemma run_action_unknown:
  "k \<notin> set recognized_kinds \<Longrightarrow>
   run_action e k a st = (Inr (''Error: Unknown action type: '' @ k), st)"
  by (simp add: run_action_def recognized_kinds_def)

lemma execute_action_unknown_kind:
  "is_initialized st \<Longrightarrow> py_get a ''action_type'' (PStr []) = PStr s \<Longrightarrow>
   py_lower s \<notin> set recognized_kinds \<Longrightarrow>
   execute_action e a st
     = (Inr (''Error: Unknown action type: '' @ py_lower s),
        log [Screenshot (''before_'' @ py_lower s)] st)"
  by (simp add: execute_action_def ensure_initialized_def run_action_unknown
                take_screenshot_def Let_def)

lemma lower_navigate: "py_lower ''navigate'' = ''navigate''"
  by code_simp

lemma loop_body_unknown_kind_continues:
  assumes "capture_page_state e (exec r) = (Some ps, st1)"
    and "analyze_page_for_next_action e g st1 = (Some a, st2)"
    and "is_initialized st2"
    and "a \<noteq> []"
    and "\<not> check_goal_completion (executed_actions r) g"
    and "py_get a ''action_type'' (PStr []) = PStr s"
    and "py_lower s \<notin> set recognized_kinds"
  shows "loop_body e g r =
           Continue (r\<lparr>exec := log [Screenshot (''before_'' @ py_lower s), Sleep (PInt 1)] st2,
                       results := results r @ [''Error: Unknown action type: '' @ py_lower s],
                       executed_actions := executed_actions r @ [a],
                       action_count := action_count r + 1\<rparr>)"
proof -
  have "s \<noteq> ''navigate''"
    using assms(7) lower_navigate by (auto simp: recognized_kinds_def)
  then have nd: "\<not> display_raises a" using assms(6) by (simp add: display_raises_def)
  show ?thesis
    using assms(1,2,4,5) nd execute_action_unknown_kind [OF assms(3,6,7), of e]
    by (simp add: loop_body_def log_def)
qed

text \<open>
  C7. An action whose kind is a string outside the recognized kinds gets the result
  "Error: Unknown action type: " followed by the lower-cased kind, and the loop goes on
  to its next pass (lemmas \<open>execute_action_unknown_kind\<close> and
  \<open>loop_body_unknown_kind_continues\<close>). The kind is lower-cased before the \<open>try\<close>
  block, though, so a kind that is not a string raises \<open>AttributeError\<close> out of
  \<open>execute_action\<close>. The page-analysis adapter passes such a kind through: when the
  service answers \<open>{"action_type": null}\<close>, the suggested action makes
  \<open>execute_action\<close> raise, and the run ends with the error report after its first
  action instead of continuing.
\<close>

theorem null_kind_halts_run:
  "fst (analyze_page_for_next_action
          (example_env\<lparr>oracle_answer := (\<lambda>h. Json (PDict [(''action_type'', PNone)]))\<rparr>)
          ''goal'' ready)
     = Some [(''action_type'', PNone), (''description'', PStr ''No description provided'')]
   \<and> fst (execute_action example_env
            [(''action_type'', PNone), (''description'', PStr ''No description provided'')]
            ready)
     = Inl AttributeError
   \<and> fst (execute_browser_actions
            (example_env\<lparr>oracle_answer := (\<lambda>h. Json (PDict [(''action_type'', PNone)]))\<rparr>)
            [open_example] ''goal'' None)
     = ''Error executing browser actions: error''
   \<and> executed_actions (snd (execute_browser_actions
            (example_env\<lparr>oracle_answer := (\<lambda>h. Json (PDict [(''action_type'', PNone)]))\<rparr>)
            [open_example] ''goal'' None))
     = [open_example]"
  by code_simp





text \<open>
  A website entry with a \<open>url\<close> but without a \<open>name\<close>: the executor navigates, then the
  message that prints the name raises \<open>KeyError\<close> and the search is not run.
\<close>

lemma search_website_without_name:
  assumes "is_initialized st"
    and "py_get a ''action_type'' (PStr []) = PStr s"
    and "py_lower s = ''search''"
    and "py_get a ''query'' (PStr []) = PStr q"
    and "py_get a ''website'' PNone = PDict w"
    and "has_key w ''url''"
    and "\<not> has_key w ''name''"
  shows "execute_action e a st
           = (Inr (''Error executing search action: '' @ exception_text e (KeyError ''name'')),
              log [Screenshot ''before_search'', Navigate (py_get w ''url'' PNone)] st)"
proof -
  have "w \<noteq> []" using assms(6) by (auto simp: has_key_def)
  then show ?thesis
    using assms
    by (simp add: execute_action_def ensure_initialized_def run_action_def take_screenshot_def
                  log_def Let_def)
qed

section \<open>Properties of the page-analysis adapter\<close>





text \<open>
  The executor fills in what such a bare \<open>scroll\<close> action leaves out: it scrolls down
  by 500, as the fixed fallback would.
\<close>

lemma lower_scroll: "py_lower ''scroll'' = ''scroll''"
  by code_simp

lemma bare_scroll_defaults:
  assumes "is_initialized st"
  shows "calls (snd (execute_action e
            [(''action_type'', PStr ''scroll''), (''description'', d)] st))
           = calls st @ [Screenshot ''before_scroll'',
                         Scroll (PStr ''down'') (PInt 500), Screenshot ''scroll'']"
  using assms
  by (simp add: execute_action_def ensure_initialized_def py_get_def lower_scroll
                run_action_def take_screenshot_def log_def Let_def)

section \<open>Properties of the final report\<close>






end
